theory Spec2Isabelle
  imports Main
begin

section \<open>Python values\<close>

text \<open>
  An \<open>Optional[str]\<close> is a \<open>string option\<close>. Python's truth test on it
  (\<open>if client_id:\<close>, \<open>if not session_id:\<close>) is false for \<open>None\<close> and for the
  empty string.
\<close>

definition truthy :: "string option \<Rightarrow> bool" where
  "truthy s = (case s of None \<Rightarrow> False | Some t \<Rightarrow> t \<noteq> [])"

text \<open>
  Time is a linear axis of integer instants; a \<open>timedelta\<close> is a number of units on it.
  A Python \<open>datetime\<close> is naive (no UTC offset; this is what the Google library
  produces and compares with) or aware (it carries an offset; the instant is then the
  UTC one). Comparing a naive with an aware \<open>datetime\<close> raises TypeError.
\<close>

datatype datetime = Naive int | Aware int

text \<open>The exceptions that leave the functions modelled here.\<close>

datatype error = TypeError | AttributeError

text \<open>
  The text stored under the key \<open>expiry\<close>. \<open>IsoFormat e\<close> is a text that
  \<open>datetime.fromisoformat\<close> parses to \<open>e\<close>, which is what \<open>e.isoformat()\<close> writes
  (the library documents \<open>fromisoformat\<close> as the inverse of \<open>isoformat\<close>);
  \<open>NotIso s\<close> is any other text \<open>s\<close>, on which \<open>fromisoformat\<close> raises ValueError.
\<close>

datatype iso_text = IsoFormat datetime | NotIso string

definition isoformat :: "datetime \<Rightarrow> iso_text" where
  "isoformat e = IsoFormat e"

fun iso_truthy :: "iso_text option \<Rightarrow> bool" where
  "iso_truthy None = False"
| "iso_truthy (Some (IsoFormat e)) = True"
| "iso_truthy (Some (NotIso s)) = (s \<noteq> [])"

fun fromisoformat :: "iso_text \<Rightarrow> datetime option" where
  "fromisoformat (IsoFormat e) = Some e"
| "fromisoformat (NotIso s) = None"

section \<open>Credentials and the stored dictionaries\<close>

text \<open>
  \<open>google.oauth2.credentials.Credentials\<close>, with the seven attributes this program
  reads and writes.
\<close>

record Credentials =
  token :: "string option"
  refresh_token :: "string option"
  token_uri :: "string option"
  client_id :: "string option"
  client_secret :: "string option"
  scopes :: "string list option"
  expiry :: "datetime option"

text \<open>The dictionary \<open>creds_data\<close> of the two save functions, by key.\<close>

record creds_data =
  k_token :: "string option"
  k_refresh_token :: "string option"
  k_token_uri :: "string option"
  k_client_id :: "string option"
  k_client_secret :: "string option"
  k_scopes :: "string list option"
  k_expiry :: "iso_text option"

text \<open>The dictionary \<open>data\<close> of \<open>RedisStateStore.store_oauth_state\<close>, by key.\<close>

record state_data =
  d_session_id :: "string option"
  d_client_id :: "string option"
  d_client_secret :: "string option"

text \<open>The named tuple \<open>OAuthStateInfo\<close> of scopes.py.\<close>

datatype OAuthStateInfo =
  OAuthStateInfo (info_session_id: "string option") (info_client_id: "string option")
    (info_client_secret: "string option")

text \<open>
  A Redis value is a Python \<open>str\<close>. The model keeps of it what \<open>json.loads\<close> makes
  of it: \<open>Json obj\<close> is a text that parses to the dictionary \<open>obj\<close>, which is what
  \<open>json.dumps obj\<close> writes; \<open>JsonNonObject\<close> is a text that parses to a JSON value
  that is not an object (an array, a string, a number, \<open>true\<close>, \<open>false\<close> or
  \<open>null\<close>), on which \<open>.get\<close> raises AttributeError; \<open>NotJson s\<close> is a text \<open>s\<close> on
  which \<open>json.loads\<close> raises JSONDecodeError (the empty text among them). The
  dictionaries are the two this program writes, with values of the types it writes.
\<close>

datatype json_object = StateDict state_data | CredsDict creds_data

datatype json_value = Object json_object | NonObject

datatype json_text = NotJson string | Json json_object | JsonNonObject

definition json_dumps :: "json_object \<Rightarrow> json_text" where
  "json_dumps obj = Json obj"

text \<open>\<open>json.loads\<close>; \<open>None\<close> is the JSONDecodeError.\<close>

fun json_loads :: "json_text \<Rightarrow> json_value option" where
  "json_loads (Json obj) = Some (Object obj)"
| "json_loads JsonNonObject = Some NonObject"
| "json_loads (NotJson s) = None"

fun text_truthy :: "json_text option \<Rightarrow> bool" where
  "text_truthy None = False"
| "text_truthy (Some (Json obj)) = True"
| "text_truthy (Some JsonNonObject) = True"
| "text_truthy (Some (NotJson s)) = (s \<noteq> [])"

text \<open>
  What \<open>.get\<close> returns for the seven credential keys, and for the three state keys, on
  either dictionary: a key the dictionary does not have gives \<open>None\<close>.
\<close>

fun get_creds_keys :: "json_object \<Rightarrow> creds_data" where
  "get_creds_keys (CredsDict d) = d"
| "get_creds_keys (StateDict s) =
     \<lparr>k_token = None, k_refresh_token = None, k_token_uri = None,
      k_client_id = d_client_id s, k_client_secret = d_client_secret s,
      k_scopes = None, k_expiry = None\<rparr>"

fun get_state_keys :: "json_object \<Rightarrow> state_data" where
  "get_state_keys (StateDict s) = s"
| "get_state_keys (CredsDict d) =
     \<lparr>d_session_id = None, d_client_id = k_client_id d, d_client_secret = k_client_secret d\<rparr>"

section \<open>The Redis server\<close>

text \<open>
  The server is outside the program: whether it answers (\<open>reachable\<close>), its clock in
  seconds, and its keyspace, each entry with the time at which it expires. A command
  sent while the server does not answer raises a RedisError in the client.
\<close>

record redis_server =
  reachable :: bool
  clock :: nat
  db :: "string \<rightharpoonup> json_text \<times> nat"

definition redis_get :: "redis_server \<Rightarrow> string \<Rightarrow> json_text option" where
  "redis_get srv key =
     (case db srv key of
        None \<Rightarrow> None
      | Some (v, deadline) \<Rightarrow> if clock srv < deadline then Some v else None)"

definition redis_setex :: "redis_server \<Rightarrow> string \<Rightarrow> nat \<Rightarrow> json_text \<Rightarrow> redis_server" where
  "redis_setex srv key ttl v = srv\<lparr>db := (db srv)(key \<mapsto> (v, clock srv + ttl))\<rparr>"

definition redis_expire :: "redis_server \<Rightarrow> string \<Rightarrow> nat \<Rightarrow> redis_server" where
  "redis_expire srv key ttl =
     (case redis_get srv key of
        None \<Rightarrow> srv
      | Some v \<Rightarrow> srv\<lparr>db := (db srv)(key \<mapsto> (v, clock srv + ttl))\<rparr>)"

definition redis_delete :: "redis_server \<Rightarrow> string \<Rightarrow> nat \<times> redis_server" where
  "redis_delete srv key =
     (if redis_get srv key = None then 0 else 1, srv\<lparr>db := (db srv)(key := None)\<rparr>)"

text \<open>The time-to-live values of redis\_state\_store.py, in seconds.\<close>

definition oauth_state_ttl :: nat where
  "oauth_state_ttl = 10 * 60"

definition session_ttl :: nat where
  "session_ttl = 30 * 60"

definition user_ttl :: nat where
  "user_ttl = 7 * 24 * 60 * 60"

section \<open>RedisStateStore\<close>

text \<open>
  The object's mutable attributes: \<open>has_client\<close> is \<open>self._client is not None\<close>.
  \<open>redis.from_url\<close> builds the client object without any network traffic; the first
  traffic is \<open>ping()\<close>.
\<close>

record RedisStateStore =
  has_client :: bool
  enabled :: bool

definition init_store :: RedisStateStore where
  "init_store = \<lparr>has_client = False, enabled = True\<rparr>"

text \<open>
  The property \<open>client\<close>. The result is whether the returned value is a client (and not
  \<open>None\<close>). The assignment to \<open>self._client\<close> happens before \<open>ping()\<close> is called, so
  it stands when \<open>ping()\<close> raises.
\<close>

definition client :: "RedisStateStore \<Rightarrow> redis_server \<Rightarrow> bool \<times> RedisStateStore" where
  "client self srv =
     (if \<not> has_client self \<and> enabled self then
        (let self1 = self\<lparr>has_client := True\<rparr> in
         if reachable srv then (True, self1)
         else (False, self1\<lparr>enabled := False\<rparr>))
      else (has_client self, self))"

definition oauth_state_key :: "string \<Rightarrow> string" where
  "oauth_state_key state = ''oauth_state:'' @ state"

definition session_creds_key :: "string \<Rightarrow> string" where
  "session_creds_key session_id = ''session_creds:'' @ session_id"

definition user_creds_key :: "string \<Rightarrow> string \<Rightarrow> string" where
  "user_creds_key client_id' user_email = ''user_creds:'' @ client_id' @ '':'' @ user_email"

definition rs_store_oauth_state ::
  "RedisStateStore \<Rightarrow> redis_server \<Rightarrow> string \<Rightarrow> string option \<Rightarrow> string option \<Rightarrow> string option
     \<Rightarrow> bool \<times> RedisStateStore \<times> redis_server" where
  "rs_store_oauth_state self srv state session_id client_id' client_secret' =
     (let (c, self1) = client self srv in
      if \<not> c then (False, self1, srv)
      else if \<not> reachable srv then (False, self1, srv)
      else
        (let data = \<lparr>d_session_id = session_id, d_client_id = client_id',
                     d_client_secret = client_secret'\<rparr>;
             key = oauth_state_key state
         in (True, self1, redis_setex srv key oauth_state_ttl (json_dumps (StateDict data)))))"

definition rs_get_oauth_state ::
  "RedisStateStore \<Rightarrow> redis_server \<Rightarrow> string
     \<Rightarrow> json_value option \<times> RedisStateStore \<times> redis_server" where
  "rs_get_oauth_state self srv state =
     (let (c, self1) = client self srv in
      if \<not> c then (None, self1, srv)
      else if \<not> reachable srv then (None, self1, srv)
      else
        (let key = oauth_state_key state;
             data_str = redis_get srv key;
             srv1 = snd (redis_delete srv key)
         in if text_truthy data_str then (json_loads (the data_str), self1, srv1)
            else (None, self1, srv1)))"

definition store_session_credentials ::
  "RedisStateStore \<Rightarrow> redis_server \<Rightarrow> string \<Rightarrow> json_text
     \<Rightarrow> bool \<times> RedisStateStore \<times> redis_server" where
  "store_session_credentials self srv session_id credentials_json =
     (let (c, self1) = client self srv in
      if \<not> c then (False, self1, srv)
      else if \<not> reachable srv then (False, self1, srv)
      else (True, self1,
            redis_setex srv (session_creds_key session_id) session_ttl credentials_json))"

definition get_session_credentials ::
  "RedisStateStore \<Rightarrow> redis_server \<Rightarrow> string
     \<Rightarrow> json_text option \<times> RedisStateStore \<times> redis_server" where
  "get_session_credentials self srv session_id =
     (let (c, self1) = client self srv in
      if \<not> c then (None, self1, srv)
      else if \<not> reachable srv then (None, self1, srv)
      else
        (let key = session_creds_key session_id;
             creds = redis_get srv key
         in if text_truthy creds then (creds, self1, redis_expire srv key session_ttl)
            else (creds, self1, srv)))"

definition delete_session_credentials ::
  "RedisStateStore \<Rightarrow> redis_server \<Rightarrow> string \<Rightarrow> bool \<times> RedisStateStore \<times> redis_server" where
  "delete_session_credentials self srv session_id =
     (let (c, self1) = client self srv in
      if \<not> c then (False, self1, srv)
      else if \<not> reachable srv then (False, self1, srv)
      else
        (let (deleted, srv1) = redis_delete srv (session_creds_key session_id)
         in (deleted \<noteq> 0, self1, srv1)))"

definition store_user_credentials ::
  "RedisStateStore \<Rightarrow> redis_server \<Rightarrow> string \<Rightarrow> string \<Rightarrow> json_text
     \<Rightarrow> bool \<times> RedisStateStore \<times> redis_server" where
  "store_user_credentials self srv user_email client_id' credentials_json =
     (let (c, self1) = client self srv in
      if \<not> c then (False, self1, srv)
      else if \<not> reachable srv then (False, self1, srv)
      else (True, self1,
            redis_setex srv (user_creds_key client_id' user_email) user_ttl credentials_json))"

definition get_user_credentials ::
  "RedisStateStore \<Rightarrow> redis_server \<Rightarrow> string \<Rightarrow> string
     \<Rightarrow> json_text option \<times> RedisStateStore \<times> redis_server" where
  "get_user_credentials self srv user_email client_id' =
     (let (c, self1) = client self srv in
      if \<not> c then (None, self1, srv)
      else if \<not> reachable srv then (None, self1, srv)
      else
        (let key = user_creds_key client_id' user_email;
             creds = redis_get srv key
         in if text_truthy creds then (creds, self1, redis_expire srv key user_ttl)
            else (creds, self1, srv)))"

definition delete_user_credentials ::
  "RedisStateStore \<Rightarrow> redis_server \<Rightarrow> string \<Rightarrow> string
     \<Rightarrow> bool \<times> RedisStateStore \<times> redis_server" where
  "delete_user_credentials self srv user_email client_id' =
     (let (c, self1) = client self srv in
      if \<not> c then (False, self1, srv)
      else if \<not> reachable srv then (False, self1, srv)
      else
        (let (deleted, srv1) = redis_delete srv (user_creds_key client_id' user_email)
         in (deleted \<noteq> 0, self1, srv1)))"

section \<open>The process and its surroundings\<close>

text \<open>
  The module-level state of the three files, with the server they talk to:
  \<open>redis_store\<close> is \<open>_redis_store\<close> of redis\_state\_store.py, \<open>redis_available\<close> is
  \<open>_redis_available\<close> of scopes.py (whether the import succeeded), and the three
  dictionaries keep their names.
\<close>

record world =
  server :: redis_server
  redis_store :: "RedisStateStore option"
  redis_available :: bool
  SESSION_CREDENTIALS_CACHE :: "string \<rightharpoonup> Credentials"
  OAUTH_STATE_TO_SESSION_INFO_MAP :: "string \<rightharpoonup> OAuthStateInfo"
  OAUTH_STATE_TO_SESSION_ID_MAP :: "string \<rightharpoonup> string"

definition get_redis_store :: "world \<Rightarrow> RedisStateStore \<times> world" where
  "get_redis_store w =
     (case redis_store w of
        None \<Rightarrow> (init_store, w\<lparr>redis_store := Some init_store\<rparr>)
      | Some rs \<Rightarrow> (rs, w))"

text \<open>
  A method call changes the attributes of the global instance and the server; \<open>after_call\<close>
  writes both back.
\<close>

definition after_call :: "world \<Rightarrow> RedisStateStore \<Rightarrow> redis_server \<Rightarrow> world" where
  "after_call w self1 srv1 = w\<lparr>redis_store := Some self1, server := srv1\<rparr>"

subsection \<open>scopes.py\<close>

definition store_oauth_state ::
  "string \<Rightarrow> string option \<Rightarrow> string option \<Rightarrow> string option \<Rightarrow> world \<Rightarrow> world" where
  "store_oauth_state state session_id client_id' client_secret' w =
     (let (stored, w1) =
        (if redis_available w then
           (let (rs, w0) = get_redis_store w;
                (ok, rs1, srv1) =
                  rs_store_oauth_state rs (server w0) state session_id client_id' client_secret'
            in (ok, after_call w0 rs1 srv1))
         else (False, w))
      in if stored then w1
         else
           (let state_info = OAuthStateInfo session_id client_id' client_secret';
                w2 = w1\<lparr>OAUTH_STATE_TO_SESSION_INFO_MAP :=
                          (OAUTH_STATE_TO_SESSION_INFO_MAP w1)(state \<mapsto> state_info)\<rparr>
            in if truthy session_id
               then w2\<lparr>OAUTH_STATE_TO_SESSION_ID_MAP :=
                          (OAUTH_STATE_TO_SESSION_ID_MAP w2)(state \<mapsto> the session_id)\<rparr>
               else w2))"

text \<open>
  \<open>dict.pop(state, None)\<close> removes the key whether or not the caller uses the value. An
  \<open>OAuthStateInfo\<close> is a tuple of three fields and so always true; the dictionary read
  from Redis always has keys and so is always true. A value from Redis that is not an
  object is either false, or true and without \<open>.get\<close>: the AttributeError is caught by
  \<open>except Exception\<close>; both ways the function goes on to the in-memory maps.
\<close>

definition get_oauth_state :: "string \<Rightarrow> world \<Rightarrow> OAuthStateInfo option \<times> world" where
  "get_oauth_state state w =
     (let (data, w1) =
        (if redis_available w then
           (let (rs, w0) = get_redis_store w;
                (r, rs1, srv1) = rs_get_oauth_state rs (server w0) state
            in (r, after_call w0 rs1 srv1))
         else (None, w))
      in case data of
           Some (Object obj) \<Rightarrow>
             (Some (OAuthStateInfo (d_session_id (get_state_keys obj))
                      (d_client_id (get_state_keys obj))
                      (d_client_secret (get_state_keys obj))), w1)
         | _ \<Rightarrow>
             (let state_info = OAUTH_STATE_TO_SESSION_INFO_MAP w1 state;
                  w2 = w1\<lparr>OAUTH_STATE_TO_SESSION_INFO_MAP :=
                            (OAUTH_STATE_TO_SESSION_INFO_MAP w1)(state := None)\<rparr>
              in case state_info of
                   Some info \<Rightarrow> (Some info, w2)
                 | None \<Rightarrow>
                     (let session_id = OAUTH_STATE_TO_SESSION_ID_MAP w2 state;
                          w3 = w2\<lparr>OAUTH_STATE_TO_SESSION_ID_MAP :=
                                    (OAUTH_STATE_TO_SESSION_ID_MAP w2)(state := None)\<rparr>
                      in if truthy session_id
                         then (Some (OAuthStateInfo session_id None None), w3)
                         else (None, w3))))"

subsection \<open>google\_auth.py: saving and loading\<close>

text \<open>The dictionary literal \<open>creds_data\<close> of the two save functions.\<close>

definition creds_dict :: "Credentials \<Rightarrow> creds_data" where
  "creds_dict credentials =
     \<lparr>k_token = token credentials,
      k_refresh_token = refresh_token credentials,
      k_token_uri = token_uri credentials,
      k_client_id = client_id credentials,
      k_client_secret = client_secret credentials,
      k_scopes = scopes credentials,
      k_expiry = (case expiry credentials of None \<Rightarrow> None | Some e \<Rightarrow> Some (isoformat e))\<rparr>"

text \<open>
  The two load functions parse the expiry and build the object in the same way:
  a missing or empty \<open>expiry\<close> gives no expiry, and so does one that \<open>fromisoformat\<close>
  rejects (the ValueError is caught and logged).
\<close>

definition parse_expiry :: "creds_data \<Rightarrow> datetime option" where
  "parse_expiry d = (if iso_truthy (k_expiry d) then fromisoformat (the (k_expiry d)) else None)"

definition build_credentials :: "creds_data \<Rightarrow> datetime option \<Rightarrow> Credentials" where
  "build_credentials d expiry' =
     \<lparr>token = k_token d, refresh_token = k_refresh_token d, token_uri = k_token_uri d,
      client_id = k_client_id d, client_secret = k_client_secret d, scopes = k_scopes d,
      expiry = expiry'\<rparr>"

text \<open>
  The parameter \<open>base_dir\<close> of \<open>save_credentials_to_file\<close> and of
  \<open>load_credentials_from_file\<close> is not read by either body.
\<close>

definition save_credentials_to_file :: "string \<Rightarrow> Credentials \<Rightarrow> world \<Rightarrow> world" where
  "save_credentials_to_file user_google_email credentials w =
     (if \<not> truthy (client_id credentials) then w
      else
        (let creds_data' = creds_dict credentials;
             (rs, w0) = get_redis_store w;
             (ok, rs1, srv1) =
               store_user_credentials rs (server w0) user_google_email
                 (the (client_id credentials)) (json_dumps (CredsDict creds_data'))
         in after_call w0 rs1 srv1))"

definition save_credentials_to_session :: "string \<Rightarrow> Credentials \<Rightarrow> world \<Rightarrow> world" where
  "save_credentials_to_session session_id credentials w =
     (let creds_data' = creds_dict credentials;
          (rs, w0) = get_redis_store w;
          (ok, rs1, srv1) =
            store_session_credentials rs (server w0) session_id
              (json_dumps (CredsDict creds_data'));
          w1 = after_call w0 rs1 srv1
      in if ok then w1
         else w1\<lparr>SESSION_CREDENTIALS_CACHE :=
                   (SESSION_CREDENTIALS_CACHE w1)(session_id \<mapsto> credentials)\<rparr>)"

definition load_credentials_from_file ::
  "string \<Rightarrow> string option \<Rightarrow> world \<Rightarrow> (error + Credentials option) \<times> world" where
  "load_credentials_from_file user_google_email client_id' w =
     (if \<not> truthy client_id' then (Inr None, w)
      else
        (let (rs, w0) = get_redis_store w;
             (creds_json, rs1, srv1) =
               get_user_credentials rs (server w0) user_google_email (the client_id');
             w1 = after_call w0 rs1 srv1
         in if \<not> text_truthy creds_json then (Inr None, w1)
            else
              (case json_loads (the creds_json) of
                 None \<Rightarrow> (Inr None, w1)
               | Some NonObject \<Rightarrow> (Inl AttributeError, w1)
               | Some (Object obj) \<Rightarrow>
                   (let creds_data' = get_creds_keys obj
                    in (Inr (Some (build_credentials creds_data' (parse_expiry creds_data'))),
                        w1)))))"

text \<open>
  The first half of \<open>load_credentials_from_session\<close>: the lookup in Redis. A text that
  does not parse is logged and the function goes on to the in-memory cache
  (\<open>Inr None\<close>); the AttributeError of \<open>.get\<close> on a value that is not an object is not
  among the exceptions caught.
\<close>

definition load_session_from_redis ::
  "string \<Rightarrow> world \<Rightarrow> (error + Credentials option) \<times> world" where
  "load_session_from_redis session_id w =
     (let (rs, w0) = get_redis_store w;
          (creds_json, rs1, srv1) = get_session_credentials rs (server w0) session_id;
          w1 = after_call w0 rs1 srv1
      in if text_truthy creds_json then
           (case json_loads (the creds_json) of
              None \<Rightarrow> (Inr None, w1)
            | Some NonObject \<Rightarrow> (Inl AttributeError, w1)
            | Some (Object obj) \<Rightarrow>
                (let creds_data' = get_creds_keys obj
                 in (Inr (Some (build_credentials creds_data' (parse_expiry creds_data'))),
                     w1)))
         else (Inr None, w1))"

definition load_credentials_from_session ::
  "string \<Rightarrow> world \<Rightarrow> (error + Credentials option) \<times> world" where
  "load_credentials_from_session session_id w =
     (case load_session_from_redis session_id w of
        (Inl e, w1) \<Rightarrow> (Inl e, w1)
      | (Inr (Some credentials), w1) \<Rightarrow> (Inr (Some credentials), w1)
      | (Inr None, w1) \<Rightarrow> (Inr (SESSION_CREDENTIALS_CACHE w1 session_id), w1))"

subsection \<open>google\_auth.py: what get\_credentials reads from outside\<close>

text \<open>
  \<open>Credentials.refresh\<close> either replaces the token and expiry of the object, raises
  \<open>google.auth.exceptions.RefreshError\<close>, or raises some other exception.
\<close>

datatype refresh_outcome = Refreshed Credentials | RefreshError | OtherException

text \<open>A file of the credentials directory: \<open>open\<close> raises IOError, or the file has a text.\<close>

datatype dir_entry = Unreadable | FileText json_text

text \<open>
  \<open>utcnow\<close> (a naive \<open>datetime\<close>, given by its instant) and \<open>REFRESH_THRESHOLD\<close> are
  those of \<open>google.auth._helpers\<close>; \<open>getenv_single_user\<close> is
  \<open>os.getenv("MCP_SINGLE_USER_MODE")\<close>; \<open>listdir\<close> gives the files of a directory in
  the order of \<open>os.listdir\<close>, or \<open>None\<close> where \<open>os.path.exists\<close> is false;
  \<open>userinfo_email\<close> is the entry \<open>email\<close> of the dictionary that \<open>get_user_info\<close>
  returns, \<open>None\<close> when the call returns nothing or a dictionary without that entry.
\<close>

record env =
  utcnow :: int
  REFRESH_THRESHOLD :: nat
  refresh :: "Credentials \<Rightarrow> refresh_outcome"
  getenv_single_user :: "string option"
  listdir :: "string \<Rightarrow> (string \<times> dir_entry) list option"
  userinfo_email :: "Credentials \<Rightarrow> string option"

text \<open>
  The properties \<open>expired\<close> and \<open>valid\<close> of the Credentials class. \<open>expired\<close>
  compares \<open>utcnow()\<close> with the expiry less the threshold, which raises for an aware
  expiry. \<open>valid\<close> is \<open>self.token is not None and not self.expired\<close>: without a
  token \<open>expired\<close> is not read.
\<close>

definition expired :: "env \<Rightarrow> Credentials \<Rightarrow> error + bool" where
  "expired env credentials =
     (case expiry credentials of
        None \<Rightarrow> Inr False
      | Some (Naive e) \<Rightarrow> Inr (e - int (REFRESH_THRESHOLD env) \<le> utcnow env)
      | Some (Aware e) \<Rightarrow> Inl TypeError)"

definition valid :: "env \<Rightarrow> Credentials \<Rightarrow> error + bool" where
  "valid env credentials =
     (if token credentials = None then Inr False
      else
        (case expired env credentials of
           Inl e \<Rightarrow> Inl e
         | Inr is_expired \<Rightarrow> Inr (\<not> is_expired)))"

definition endswith :: "string \<Rightarrow> string \<Rightarrow> bool" where
  "endswith s suffix' =
     (length suffix' \<le> length s \<and> drop (length s - length suffix') s = suffix')"

text \<open>
  The loop of \<open>_find_any_credentials\<close> over the directory: the first file named
  \<open>*.json\<close> that opens and parses gives the credentials, built without an expiry
  whatever the file says. IOError and JSONDecodeError are caught and the loop goes on;
  the AttributeError of \<open>.get\<close> on a value that is not an object is not caught.
\<close>

fun scan_files :: "(string \<times> dir_entry) list \<Rightarrow> error + Credentials option" where
  "scan_files [] = Inr None"
| "scan_files ((filename, f) # rest) =
     (if endswith filename ''.json'' then
        (case f of
           Unreadable \<Rightarrow> scan_files rest
         | FileText t \<Rightarrow>
             (case json_loads t of
                None \<Rightarrow> scan_files rest
              | Some NonObject \<Rightarrow> Inl AttributeError
              | Some (Object obj) \<Rightarrow> Inr (Some (build_credentials (get_creds_keys obj) None))))
      else scan_files rest)"

definition find_any_credentials :: "env \<Rightarrow> string \<Rightarrow> error + Credentials option" where
  "find_any_credentials env base_dir =
     (case listdir env base_dir of
        None \<Rightarrow> Inr None
      | Some files \<Rightarrow> scan_files files)"

subsection \<open>google\_auth.py: get\_credentials\<close>

text \<open>
  \<open>all(scope in credentials.scopes for scope in required_scopes)\<close>. With no required
  scope the generator is empty and \<open>credentials.scopes\<close> is not read; otherwise
  \<open>scope in None\<close> raises TypeError.
\<close>

definition has_required_scopes :: "Credentials \<Rightarrow> string list \<Rightarrow> error + bool" where
  "has_required_scopes credentials required_scopes =
     (case required_scopes of
        [] \<Rightarrow> Inr True
      | _ # _ \<Rightarrow>
          (case scopes credentials of
             None \<Rightarrow> Inl TypeError
           | Some granted \<Rightarrow> Inr (list_all (\<lambda>scope. scope \<in> set granted) required_scopes)))"

text \<open>
  The first half of \<open>get_credentials\<close>, up to the point where credentials are in hand.
  It gives the credentials, the value of \<open>user_google_email\<close> (single-user mode may
  assign it), and the key under which \<open>_SESSION_CREDENTIALS_CACHE\<close> holds the very
  object in hand, if it does: that is so when the session lookup took the object from
  the cache, and when the object just built from Redis was put there. An exception of
  a load function leaves \<open>get_credentials\<close>.
\<close>

definition locate_credentials ::
  "env \<Rightarrow> string option \<Rightarrow> string \<Rightarrow> string option \<Rightarrow> string option \<Rightarrow> world
     \<Rightarrow> (error + (Credentials \<times> string option \<times> string option) option) \<times> world" where
  "locate_credentials env user_google_email credentials_base_dir session_id provided_client_id w =
     (if getenv_single_user env = Some ''1'' then
        (case find_any_credentials env credentials_base_dir of
           Inl e \<Rightarrow> (Inl e, w)
         | Inr None \<Rightarrow> (Inr None, w)
         | Inr (Some credentials) \<Rightarrow>
             (if truthy user_google_email
              then (Inr (Some (credentials, user_google_email, None)), w)
              else
                (case valid env credentials of
                   Inl e \<Rightarrow> (Inl e, w)
                 | Inr is_valid \<Rightarrow>
                     (if is_valid then
                        (case userinfo_email env credentials of
                           Some email \<Rightarrow> (Inr (Some (credentials, Some email, None)), w)
                         | None \<Rightarrow> (Inr (Some (credentials, user_google_email, None)), w))
                      else (Inr (Some (credentials, user_google_email, None)), w)))))
      else
        (let (found, cache_key, w1) =
           (if truthy session_id then
              (let (r, w') = load_credentials_from_session (the session_id) w
               in (r,
                   if fst (load_session_from_redis (the session_id) w) = Inr None
                   then session_id else None,
                   w'))
            else (Inr None, None, w))
         in case found of
              Inl e \<Rightarrow> (Inl e, w1)
            | Inr (Some credentials) \<Rightarrow>
                (Inr (Some (credentials, user_google_email, cache_key)), w1)
            | Inr None \<Rightarrow>
                (if truthy user_google_email \<and> truthy provided_client_id then
                   (case load_credentials_from_file (the user_google_email) provided_client_id w1 of
                      (Inl e, w2) \<Rightarrow> (Inl e, w2)
                    | (Inr (Some credentials), w2) \<Rightarrow>
                        (if truthy session_id then
                           (let w3 = save_credentials_to_session (the session_id) credentials w2
                            in (Inr (Some (credentials, user_google_email,
                                           if SESSION_CREDENTIALS_CACHE w3 (the session_id) = None
                                           then None else session_id)), w3))
                         else (Inr (Some (credentials, user_google_email, None)), w2))
                    | (Inr None, w2) \<Rightarrow> (Inr None, w2))
                 else (Inr None, w1))))"

text \<open>
  The second half. The message of the first \<open>logger.debug\<close> is built whatever the log
  level, and it reads \<open>credentials.valid\<close> and \<open>credentials.expired\<close>: with an aware
  expiry the TypeError leaves the function there. Then come the scope check, the
  validity test and the refresh. \<open>refresh\<close> changes the object in place, so when the
  cache holds that object the cache entry changes with it.
\<close>

definition check_credentials ::
  "env \<Rightarrow> Credentials \<Rightarrow> string option \<Rightarrow> string option \<Rightarrow> string list \<Rightarrow> string option
     \<Rightarrow> string option \<Rightarrow> world \<Rightarrow> (error + Credentials option) \<times> world" where
  "check_credentials env credentials cache_key user_google_email required_scopes
       client_secrets_path session_id w =
     (case expired env credentials of
        Inl e \<Rightarrow> (Inl e, w)
      | Inr is_expired \<Rightarrow>
          (case has_required_scopes credentials required_scopes of
             Inl e \<Rightarrow> (Inl e, w)
           | Inr sufficient \<Rightarrow>
               (if \<not> sufficient then (Inr None, w)
                else if valid env credentials = Inr True then (Inr (Some credentials), w)
                else if is_expired \<and> truthy (refresh_token credentials) then
                  (if \<not> truthy client_secrets_path then (Inr None, w)
                   else
                     (case refresh env credentials of
                        Refreshed refreshed \<Rightarrow>
                          (let w1 = (case cache_key of
                                       Some k \<Rightarrow>
                                         w\<lparr>SESSION_CREDENTIALS_CACHE :=
                                             (SESSION_CREDENTIALS_CACHE w)(k \<mapsto> refreshed)\<rparr>
                                     | None \<Rightarrow> w);
                               w2 = (if truthy user_google_email
                                     then save_credentials_to_file (the user_google_email)
                                            refreshed w1
                                     else w1);
                               w3 = (if truthy session_id
                                     then save_credentials_to_session (the session_id)
                                            refreshed w2
                                     else w2)
                           in (Inr (Some refreshed), w3))
                      | RefreshError \<Rightarrow> (Inr None, w)
                      | OtherException \<Rightarrow> (Inr None, w)))
                else (Inr None, w))))"

text \<open>
  \<open>get_credentials\<close>. \<open>Inr None\<close> is the return value \<open>None\<close>, \<open>Inl e\<close> an exception
  that leaves the function. The parameter \<open>provided_client_secret\<close> is not read by the
  body.
\<close>

definition get_credentials ::
  "env \<Rightarrow> string option \<Rightarrow> string list \<Rightarrow> string option \<Rightarrow> string \<Rightarrow> string option
     \<Rightarrow> string option \<Rightarrow> world \<Rightarrow> (error + Credentials option) \<times> world" where
  "get_credentials env user_google_email required_scopes client_secrets_path
       credentials_base_dir session_id provided_client_id w =
     (case locate_credentials env user_google_email credentials_base_dir session_id
             provided_client_id w of
        (Inl e, w1) \<Rightarrow> (Inl e, w1)
      | (Inr None, w1) \<Rightarrow> (Inr None, w1)
      | (Inr (Some (credentials, email, cache_key)), w1) \<Rightarrow>
          check_credentials env credentials cache_key email required_scopes
            client_secrets_path session_id w1)"

section \<open>Derived notions\<close>

text \<open>
  These are not functions of the program; they name what the properties below talk
  about. \<open>store_of\<close> is the instance that \<open>get_redis_store\<close> hands out. A command
  sent through an instance reaches the server (\<open>cmd_ok\<close>) when the server answers and
  the property \<open>client\<close> yields a client, which it does unless the instance has neither
  a client object nor the flag \<open>enabled\<close>. \<open>touch\<close> is what reading the property
  does to the global instance.
\<close>

definition cmd_ok :: "RedisStateStore \<Rightarrow> redis_server \<Rightarrow> bool" where
  "cmd_ok rs srv = (reachable srv \<and> (has_client rs \<or> enabled rs))"

definition store_of :: "world \<Rightarrow> RedisStateStore" where
  "store_of w = (case redis_store w of None \<Rightarrow> init_store | Some rs \<Rightarrow> rs)"

definition durable_available :: "world \<Rightarrow> bool" where
  "durable_available w = cmd_ok (store_of w) (server w)"

definition touch :: "world \<Rightarrow> world" where
  "touch w = w\<lparr>redis_store := Some (snd (client (store_of w) (server w)))\<rparr>"

text \<open>What the two load functions make of the text they got from Redis.\<close>

definition parse_stored :: "json_text option \<Rightarrow> error + Credentials option" where
  "parse_stored t =
     (if text_truthy t then
        (case json_loads (the t) of
           None \<Rightarrow> Inr None
         | Some NonObject \<Rightarrow> Inl AttributeError
         | Some (Object obj) \<Rightarrow>
             Inr (Some (build_credentials (get_creds_keys obj)
                          (parse_expiry (get_creds_keys obj)))))
      else Inr None)"

text \<open>The world when the server's clock shows \<open>t\<close>.\<close>

definition at_time :: "nat \<Rightarrow> world \<Rightarrow> world" where
  "at_time t w = w\<lparr>server := (server w)\<lparr>clock := t\<rparr>\<rparr>"

text \<open>
  The identity-scoped namespace as a reader sees it: the live value under the key of
  a tenant and a user.
\<close>

definition user_view :: "world \<Rightarrow> string \<Rightarrow> string \<Rightarrow> json_text option" where
  "user_view w tenant user = redis_get (server w) (user_creds_key tenant user)"

section \<open>Example values\<close>

text \<open>A process that has just started, with a server that answers or does not.\<close>

definition fresh_world :: "bool \<Rightarrow> world" where
  "fresh_world up =
     \<lparr>server = \<lparr>reachable = up, clock = 0, db = Map.empty\<rparr>,
      redis_store = None, redis_available = True,
      SESSION_CREDENTIALS_CACHE = Map.empty,
      OAUTH_STATE_TO_SESSION_INFO_MAP = Map.empty,
      OAUTH_STATE_TO_SESSION_ID_MAP = Map.empty\<rparr>"

text \<open>
  Credentials of tenant \<open>t1\<close> with the scope \<open>read\<close>, with a given refresh token and
  expiry.
\<close>

definition demo_credentials :: "string option \<Rightarrow> datetime option \<Rightarrow> Credentials" where
  "demo_credentials rt ex =
     \<lparr>token = Some ''access'', refresh_token = rt,
      token_uri = Some ''https://oauth2.googleapis.com/token'',
      client_id = Some ''t1'', client_secret = Some ''secret'',
      scopes = Some [''read''], expiry = ex\<rparr>"

text \<open>
  Surroundings in which it is time 1000, multi-tenant mode is on, and every refresh
  has the given outcome.
\<close>

definition demo_env :: "refresh_outcome \<Rightarrow> env" where
  "demo_env outcome =
     \<lparr>utcnow = 1000, REFRESH_THRESHOLD = 225, refresh = (\<lambda>c. outcome),
      getenv_single_user = None, listdir = (\<lambda>d. None), userinfo_email = (\<lambda>c. None)\<rparr>"

text \<open>A process whose in-memory cache holds credentials for session \<open>s1\<close>.\<close>

definition cached_world :: "bool \<Rightarrow> Credentials \<Rightarrow> world" where
  "cached_world up c = (fresh_world up)\<lparr>SESSION_CREDENTIALS_CACHE := [''s1'' \<mapsto> c]\<rparr>"

text \<open>
  A server whose entry for tenant \<open>t1\<close> and user \<open>a@example.com\<close> is a text that is
  not JSON.
\<close>

definition corrupt_world :: world where
  "corrupt_world =
     (fresh_world True)\<lparr>server :=
        \<lparr>reachable = True, clock = 0,
         db = [user_creds_key ''t1'' ''a@example.com'' \<mapsto> (NotJson ''{token:'', 50)]\<rparr>\<rparr>"

text \<open>
  Surroundings in single-user mode, at time 1000: the credentials directory \<open>dir\<close>
  holds one file, with the dictionary the save functions write for credentials without
  a refresh token whose expiry, 100, is in the past.
\<close>

definition single_user_env :: env where
  "single_user_env =
     \<lparr>utcnow = 1000, REFRESH_THRESHOLD = 225, refresh = (\<lambda>c. RefreshError),
      getenv_single_user = Some ''1'',
      listdir = (\<lambda>d. if d = ''dir''
                     then Some [(''a@example.com.json'',
                                 FileText (json_dumps (CredsDict
                                   (creds_dict (demo_credentials None (Some (Naive 100)))))))]
                     else None),
      userinfo_email = (\<lambda>c. None)\<rparr>"

section \<open>Lemmas about the store\<close>

lemmas redis_defs = redis_get_def redis_setex_def redis_expire_def redis_delete_def
  oauth_state_ttl_def session_ttl_def user_ttl_def
  oauth_state_key_def session_creds_key_def user_creds_key_def

lemmas store_defs = client_def rs_store_oauth_state_def rs_get_oauth_state_def
  get_redis_store_def after_call_def init_store_def json_dumps_def

lemma key_inj: "user_creds_key T1 u = user_creds_key T2 u \<longleftrightarrow> T1 = T2"
  by (simp add: user_creds_key_def)

lemma key_ns: "session_creds_key sid \<noteq> user_creds_key t u"
  by (simp add: session_creds_key_def user_creds_key_def)

lemma ttl_pos [simp]: "0 < user_ttl" "0 < session_ttl" "0 < oauth_state_ttl"
  by (simp_all add: user_ttl_def session_ttl_def oauth_state_ttl_def)

lemma redis_get_setex:
  "redis_get (redis_setex srv k ttl v) k' =
     (if k' = k then (if 0 < ttl then Some v else None) else redis_get srv k')"
  by (simp add: redis_get_def redis_setex_def split: option.splits prod.splits)

lemma redis_get_setex_later:
  "redis_get ((redis_setex srv k ttl v)\<lparr>clock := t\<rparr>) k =
     (if t < clock srv + ttl then Some v else None)"
  by (simp add: redis_get_def redis_setex_def)

lemma redis_get_expire:
  "0 < ttl \<Longrightarrow> redis_get (redis_expire srv k ttl) k' = redis_get srv k'"
  by (simp add: redis_get_def redis_expire_def split: option.splits prod.splits)

lemma redis_get_db_other:
  "k' \<noteq> k \<Longrightarrow> redis_get (srv\<lparr>db := (db srv)(k := x)\<rparr>) k' = redis_get srv k'"
  by (simp add: redis_get_def split: option.splits prod.splits)

lemma reachable_setex [simp]: "reachable (redis_setex srv k ttl v) = reachable srv"
  by (simp add: redis_setex_def)

lemma reachable_expire [simp]: "reachable (redis_expire srv k ttl) = reachable srv"
  by (simp add: redis_expire_def split: option.splits)

lemma client_fst: "fst (client rs srv) = (has_client rs \<or> (enabled rs \<and> reachable srv))"
  by (simp add: client_def Let_def)

lemma client_keeps_disabled: "\<not> enabled rs \<Longrightarrow> \<not> enabled (snd (client rs srv))"
  by (simp add: client_def Let_def)

lemma cmd_ok_client [simp]: "cmd_ok (snd (client rs srv)) srv' = cmd_ok rs srv'"
  by (auto simp add: client_def cmd_ok_def Let_def)

lemma cmd_ok_server [simp]:
  "cmd_ok rs (redis_setex srv k ttl v) = cmd_ok rs srv"
  "cmd_ok rs (redis_expire srv k ttl) = cmd_ok rs srv"
  "cmd_ok rs (srv\<lparr>db := d\<rparr>) = cmd_ok rs srv"
  "cmd_ok rs (srv\<lparr>clock := t\<rparr>) = cmd_ok rs srv"
  by (simp_all add: cmd_ok_def redis_setex_def redis_expire_def split: option.splits)

lemma store_user_credentials_eq:
  "store_user_credentials rs srv u cid j =
     (cmd_ok rs srv, snd (client rs srv),
      if cmd_ok rs srv then redis_setex srv (user_creds_key cid u) user_ttl j else srv)"
  by (auto simp add: store_user_credentials_def client_def cmd_ok_def Let_def)

lemma get_user_credentials_eq:
  "get_user_credentials rs srv u cid =
     (if cmd_ok rs srv then redis_get srv (user_creds_key cid u) else None,
      snd (client rs srv),
      if cmd_ok rs srv \<and> text_truthy (redis_get srv (user_creds_key cid u))
      then redis_expire srv (user_creds_key cid u) user_ttl else srv)"
  by (auto simp add: get_user_credentials_def client_def cmd_ok_def Let_def)

lemma store_session_credentials_eq:
  "store_session_credentials rs srv sid j =
     (cmd_ok rs srv, snd (client rs srv),
      if cmd_ok rs srv then redis_setex srv (session_creds_key sid) session_ttl j else srv)"
  by (auto simp add: store_session_credentials_def client_def cmd_ok_def Let_def)

lemma get_session_credentials_eq:
  "get_session_credentials rs srv sid =
     (if cmd_ok rs srv then redis_get srv (session_creds_key sid) else None,
      snd (client rs srv),
      if cmd_ok rs srv \<and> text_truthy (redis_get srv (session_creds_key sid))
      then redis_expire srv (session_creds_key sid) session_ttl else srv)"
  by (auto simp add: get_session_credentials_def client_def cmd_ok_def Let_def)

lemma get_redis_store_fst [simp]: "fst (get_redis_store w) = store_of w"
  by (simp add: get_redis_store_def store_of_def split: option.splits)

lemma get_redis_store_server [simp]: "server (snd (get_redis_store w)) = server w"
  by (simp add: get_redis_store_def split: option.splits)

lemma call_eq:
  "after_call (snd (get_redis_store w)) (snd (client (store_of w) (server w))) srv1
     = (touch w)\<lparr>server := srv1\<rparr>"
  by (simp add: after_call_def get_redis_store_def touch_def store_of_def split: option.splits)

lemma touch_simps [simp]:
  "server (touch w) = server w"
  "SESSION_CREDENTIALS_CACHE (touch w) = SESSION_CREDENTIALS_CACHE w"
  "store_of (touch w) = snd (client (store_of w) (server w))"
  by (simp_all add: touch_def store_of_def)

lemma store_of_server_update [simp]: "store_of (w\<lparr>server := s\<rparr>) = store_of w"
  by (simp add: store_of_def)

lemma store_of_cache_update [simp]:
  "store_of (w\<lparr>SESSION_CREDENTIALS_CACHE := m\<rparr>) = store_of w"
  by (simp add: store_of_def)

lemma durable_touch_server [simp]:
  "durable_available ((touch w)\<lparr>server := s\<rparr>) = cmd_ok (store_of w) s"
  by (simp add: durable_available_def)

lemma rs_get_oauth_state_eq:
  "rs_get_oauth_state rs srv tok =
     (if cmd_ok rs srv \<and> text_truthy (redis_get srv (oauth_state_key tok))
      then json_loads (the (redis_get srv (oauth_state_key tok))) else None,
      snd (client rs srv),
      if cmd_ok rs srv then snd (redis_delete srv (oauth_state_key tok)) else srv)"
  by (auto simp add: rs_get_oauth_state_def client_def cmd_ok_def Let_def)

lemma redis_get_deleted [simp]: "redis_get (snd (redis_delete srv k)) k = None"
  by (simp add: redis_get_def redis_delete_def)

lemma cmd_ok_delete [simp]: "cmd_ok rs (snd (redis_delete srv k)) = cmd_ok rs srv"
  by (simp add: cmd_ok_def redis_delete_def)

lemma unreachable_not_available: "\<not> reachable (server w) \<Longrightarrow> \<not> durable_available w"
  by (simp add: durable_available_def cmd_ok_def)

text \<open>
  Where the token is in neither in-memory map and the durable tier answers, a second
  \<open>get_oauth_state\<close> of the same token returns \<open>None\<close>: Redis hands a value out once.
\<close>

lemma durable_tier_consumed_once:
  assumes "redis_available w" and "durable_available w"
    and "OAUTH_STATE_TO_SESSION_INFO_MAP w tok = None"
    and "OAUTH_STATE_TO_SESSION_ID_MAP w tok = None"
  shows "fst (get_oauth_state tok (snd (get_oauth_state tok w))) = None"
  using assms
  by (auto simp add: get_oauth_state_def rs_get_oauth_state_eq call_eq Let_def split_beta
        durable_available_def touch_def truthy_def split: option.splits json_value.splits)

section \<open>Lemmas about saving and loading\<close>

lemma parse_creds_dict:
  "parse_stored (Some (Json (CredsDict (creds_dict c)))) = Inr (Some c)"
  by (cases "expiry c")
     (simp_all add: parse_stored_def creds_dict_def build_credentials_def parse_expiry_def
        isoformat_def)

lemma parse_not_json: "parse_stored (Some (NotJson s)) = Inr None"
  by (simp add: parse_stored_def)

lemma save_credentials_to_file_eq:
  "save_credentials_to_file u c w =
     (if \<not> truthy (client_id c) then w
      else (touch w)\<lparr>server :=
             (if durable_available w
              then redis_setex (server w) (user_creds_key (the (client_id c)) u) user_ttl
                     (Json (CredsDict (creds_dict c)))
              else server w)\<rparr>)"
  by (simp add: save_credentials_to_file_def store_user_credentials_eq Let_def split_beta
        call_eq durable_available_def json_dumps_def)

lemma load_credentials_from_file_eq:
  "load_credentials_from_file u cid w =
     (if \<not> truthy cid then (Inr None, w)
      else
        (if durable_available w
         then parse_stored (redis_get (server w) (user_creds_key (the cid) u))
         else Inr None,
         (touch w)\<lparr>server :=
           (if durable_available w
                 \<and> text_truthy (redis_get (server w) (user_creds_key (the cid) u))
            then redis_expire (server w) (user_creds_key (the cid) u) user_ttl
            else server w)\<rparr>))"
  by (simp add: load_credentials_from_file_def get_user_credentials_eq Let_def split_beta
        call_eq durable_available_def parse_stored_def split: option.splits json_value.splits)

lemma save_credentials_to_session_eq:
  "save_credentials_to_session sid c w =
     (if durable_available w
      then (touch w)\<lparr>server := redis_setex (server w) (session_creds_key sid) session_ttl
                                 (Json (CredsDict (creds_dict c)))\<rparr>
      else (touch w)\<lparr>server := server w,
                      SESSION_CREDENTIALS_CACHE := (SESSION_CREDENTIALS_CACHE w)(sid \<mapsto> c)\<rparr>)"
  by (simp add: save_credentials_to_session_def store_session_credentials_eq Let_def split_beta
        call_eq durable_available_def json_dumps_def)

lemma load_session_from_redis_eq:
  "load_session_from_redis sid w =
     (if durable_available w then parse_stored (redis_get (server w) (session_creds_key sid))
      else Inr None,
      (touch w)\<lparr>server :=
         (if durable_available w \<and> text_truthy (redis_get (server w) (session_creds_key sid))
          then redis_expire (server w) (session_creds_key sid) session_ttl
          else server w)\<rparr>)"
  by (simp add: load_session_from_redis_def get_session_credentials_eq Let_def split_beta
        call_eq durable_available_def parse_stored_def split: option.splits json_value.splits)

lemma load_credentials_from_session_eq:
  "load_credentials_from_session sid w =
     (case fst (load_session_from_redis sid w) of
        Inl e \<Rightarrow> Inl e
      | Inr (Some c) \<Rightarrow> Inr (Some c)
      | Inr None \<Rightarrow> Inr (SESSION_CREDENTIALS_CACHE w sid),
      snd (load_session_from_redis sid w))"
  by (cases "load_session_from_redis sid w")
     (auto simp add: load_credentials_from_session_def load_session_from_redis_eq
        split: option.splits sum.splits)

text \<open>No save or load of a session, and no load of a user, changes what a reader of the
  identity-scoped namespace sees.\<close>

lemma user_view_cache_update [simp]:
  "user_view (w\<lparr>SESSION_CREDENTIALS_CACHE := m\<rparr>) = user_view w"
  by (simp add: user_view_def fun_eq_iff)

lemma user_view_save_session [simp]:
  "user_view (save_credentials_to_session sid c w) = user_view w"
  by (simp add: user_view_def fun_eq_iff save_credentials_to_session_eq redis_get_setex
        key_ns [symmetric])

lemma user_view_load_file [simp]:
  "user_view (snd (load_credentials_from_file user cid w)) = user_view w"
  by (simp add: user_view_def fun_eq_iff load_credentials_from_file_eq redis_get_expire)

lemma user_view_load_session [simp]:
  "user_view (snd (load_credentials_from_session sid w)) = user_view w"
  by (simp add: user_view_def fun_eq_iff load_credentials_from_session_eq
        load_session_from_redis_eq redis_get_expire)

lemma user_view_locate:
  "user_view (snd (locate_credentials env email base sid tenant w)) = user_view w"
  by (simp add: locate_credentials_def Let_def split_beta
        split: option.splits sum.splits)

section \<open>Lemmas about get\_credentials\<close>

lemma has_required_scopes_granted:
  "scopes c = Some granted \<Longrightarrow>
     has_required_scopes c required = Inr (set required \<subseteq> set granted)"
  by (cases required) (auto simp add: has_required_scopes_def list_all_iff)

lemma has_required_scopes_nil: "has_required_scopes c [] = Inr True"
  by (simp add: has_required_scopes_def)

lemma past_expiry_expired:
  "expiry c = Some (Naive e) \<Longrightarrow> e < utcnow env \<Longrightarrow> expired env c = Inr True"
  by (simp add: expired_def)

lemma get_credentials_located:
  "locate_credentials env email base sid tenant w = (Inr (Some (c, email', cache_key)), w1) \<Longrightarrow>
     get_credentials env email required secrets base sid tenant w
       = check_credentials env c cache_key email' required secrets sid w1"
  by (simp add: get_credentials_def)

lemma expired_refresh_update [simp]: "expired (env\<lparr>refresh := f\<rparr>) c = expired env c"
  by (simp add: expired_def split: option.splits datetime.splits)

lemma valid_refresh_update [simp]: "valid (env\<lparr>refresh := f\<rparr>) c = valid env c"
  by (simp add: valid_def)

lemma locate_refresh_update [simp]:
  "locate_credentials (env\<lparr>refresh := f\<rparr>) email base sid tenant w
     = locate_credentials env email base sid tenant w"
  by (simp add: locate_credentials_def find_any_credentials_def
        split: option.splits sum.splits)

text \<open>
  A stored text that is valid JSON but not an object makes the identity-scoped load
  raise: \<open>.get\<close> fails with AttributeError, which the function does not catch.
\<close>

lemma non_object_entry_raises:
  assumes "tenant \<noteq> []" and "durable_available w"
    and "redis_get (server w) (user_creds_key tenant user) = Some JsonNonObject"
  shows "fst (load_credentials_from_file user (Some tenant) w) = Inl AttributeError"
  using assms
  by (simp add: load_credentials_from_file_eq parse_stored_def truthy_def)

text \<open>
  What holds of the scope test and of expired credentials for credentials that carry a
  scope list and an expiry that can be compared with \<open>utcnow()\<close>.
\<close>

lemma scope_check_with_scope_list:
  assumes "locate_credentials env email base sid tenant w
             = (Inr (Some (c, email', cache_key)), w1)"
    and "scopes c = Some granted" and "expired env c = Inr b"
  shows "(\<not> set required \<subseteq> set granted \<longrightarrow>
            fst (get_credentials env email required secrets base sid tenant w) = Inr None)
       \<and> (set required \<subseteq> set granted \<longrightarrow>
            get_credentials env email required secrets base sid tenant w
              = get_credentials env email [] secrets base sid tenant w)
       \<and> (\<forall>c'. fst (get_credentials env email required secrets base sid tenant w) = Inr (Some c')
              \<longrightarrow> set required \<subseteq> set granted)"
  using assms
  by (auto simp add: get_credentials_def check_credentials_def has_required_scopes_granted
        has_required_scopes_nil)

lemma located_expired_not_returned:
  assumes "locate_credentials env email base sid tenant w
             = (Inr (Some (c, email', cache_key)), w1)"
    and "expiry c = Some (Naive e)" and "e < utcnow env" and "\<not> truthy (refresh_token c)"
  shows "fst (get_credentials env email required secrets base sid tenant w) \<noteq> Inr (Some c)
       \<and> (scopes c \<noteq> None \<longrightarrow>
            fst (get_credentials env email required secrets base sid tenant w) = Inr None)"
proof -
  have ex: "expired env c = Inr True"
    using assms(2,3) by (rule past_expiry_expired)
  have "fst (check_credentials env c cache_key email' required secrets sid w1) \<noteq> Inr (Some c)"
    using ex assms(4)
    by (simp add: check_credentials_def valid_def split: sum.splits)
  moreover have "fst (check_credentials env c cache_key email' required secrets sid w1) = Inr None"
    if "scopes c = Some granted" for granted
    using ex assms(4) that
    by (simp add: check_credentials_def valid_def has_required_scopes_granted)
  ultimately show ?thesis
    using assms(1) by (auto simp add: get_credentials_def)
qed

text \<open>
  The same for credentials as they are stored: outside single-user mode, when the
  session entry in Redis is what the save functions write for credentials with an
  expiry in the past, no refresh token and a scope list, \<open>get_credentials\<close> returns
  \<open>None\<close>.
\<close>

lemma stored_session_expired_gives_none:
  assumes "getenv_single_user env \<noteq> Some ''1''" and "sid \<noteq> []" and "durable_available w"
    and "redis_get (server w) (session_creds_key sid) = Some (Json (CredsDict (creds_dict c)))"
    and "expiry c = Some (Naive e)" and "e < utcnow env" and "\<not> truthy (refresh_token c)"
    and "scopes c = Some granted"
  shows "fst (get_credentials env email required secrets base (Some sid) tenant w) = Inr None"
proof -
  have "fst (locate_credentials env email base (Some sid) tenant w) = Inr (Some (c, email, None))"
    using assms(1-4)
    by (simp add: locate_credentials_def load_credentials_from_session_eq
          load_session_from_redis_eq parse_creds_dict truthy_def split_beta)
  then have "locate_credentials env email base (Some sid) tenant w
               = (Inr (Some (c, email, None)),
                  snd (locate_credentials env email base (Some sid) tenant w))"
    by (simp add: prod_eq_iff)
  from located_expired_not_returned [OF this assms(5-7)] assms(8)
  show ?thesis by simp
qed

lemmas eval_defs = fresh_world_def cached_world_def demo_credentials_def demo_env_def
  corrupt_world_def durable_available_def cmd_ok_def store_of_def init_store_def touch_def
  client_def truthy_def Let_def

section \<open>The claims\<close>

text \<open>
  C1 (tenant isolation). For one user identity and two distinct tenant client identifiers
  \<open>T1\<close> and \<open>T2\<close>: what an identity-scoped load for \<open>(T2, user)\<close> returns is the same
  after a credential has been saved under \<open>(T1, user)\<close> as before, and the same
  whatever is put under, or removed from, the key of \<open>(T1, user)\<close>; so the load never
  hands out what was stored for \<open>T1\<close>. A load that supplies no tenant client
  identifier (\<open>None\<close> or the empty string) returns nothing.
\<close>

theorem tenant_isolation:
  assumes "T1 \<noteq> T2"
  shows "fst (load_credentials_from_file user (Some T2)
                (save_credentials_to_file user (c\<lparr>client_id := Some T1\<rparr>) w))
           = fst (load_credentials_from_file user (Some T2) w)
       \<and> fst (load_credentials_from_file user (Some T2)
                (w\<lparr>server := (server w)\<lparr>db := (db (server w))(user_creds_key T1 user := v)\<rparr>\<rparr>))
           = fst (load_credentials_from_file user (Some T2) w)
       \<and> fst (load_credentials_from_file user None w) = Inr None
       \<and> fst (load_credentials_from_file user (Some []) w) = Inr None"
  using assms
  by (simp add: load_credentials_from_file_eq save_credentials_to_file_eq durable_available_def
        redis_get_setex redis_get_db_other key_inj truthy_def)

theorem tenant_isolation_witness:
  "''t1'' \<noteq> ''t2''
   \<and> fst (load_credentials_from_file ''a@example.com'' (Some ''t1'')
            (save_credentials_to_file ''a@example.com''
               ((demo_credentials None None)\<lparr>client_id := Some ''t1''\<rparr>) (fresh_world True)))
       = Inr (Some (demo_credentials None None))
   \<and> fst (load_credentials_from_file ''a@example.com'' (Some ''t2'')
            (save_credentials_to_file ''a@example.com''
               ((demo_credentials None None)\<lparr>client_id := Some ''t1''\<rparr>) (fresh_world True)))
       = Inr None"
proof -
  have ne: "''t1'' \<noteq> ''t2''" by simp
  have fresh: "fst (load_credentials_from_file ''a@example.com'' (Some ''t2'') (fresh_world True))
                 = Inr None"
    by (simp add: load_credentials_from_file_eq eval_defs redis_get_def parse_stored_def)
  have own: "fst (load_credentials_from_file ''a@example.com'' (Some ''t1'')
            (save_credentials_to_file ''a@example.com''
               ((demo_credentials None None)\<lparr>client_id := Some ''t1''\<rparr>) (fresh_world True)))
       = Inr (Some (demo_credentials None None))"
    by (simp add: load_credentials_from_file_eq save_credentials_to_file_eq eval_defs
          redis_get_setex parse_creds_dict)
  show ?thesis
    using ne own fresh
      tenant_isolation [OF ne, of "''a@example.com''" "demo_credentials None None"
        "fresh_world True" None]
    by simp
qed

text \<open>
  C2 (at-most-once consumption of a correlation token), evaluated where the code departs
  from it. With the server not answering, a token stored once with a session id goes to
  both in-memory maps. The first \<open>get_oauth_state\<close> returns the stored tuple and pops
  the token from the info map only; the second finds it in the legacy map and returns
  the session id with no client id and no client secret, instead of \<open>None\<close>.
\<close>

theorem oauth_state_resolved_twice:
  "(let w1 = store_oauth_state ''tok'' (Some ''s1'') (Some ''cid'') (Some ''sec'')
               (fresh_world False);
        (r1, w2) = get_oauth_state ''tok'' w1;
        (r2, w3) = get_oauth_state ''tok'' w2
    in r1 = Some (OAuthStateInfo (Some ''s1'') (Some ''cid'') (Some ''sec'')) \<and>
       r2 = Some (OAuthStateInfo (Some ''s1'') None None))"
  by (simp add: store_oauth_state_def get_oauth_state_def fresh_world_def store_defs
        truthy_def Let_def)

text \<open>
  C3 (credentials with an expiry in the past and no refresh token are never returned),
  evaluated where the code departs from it. In single-user mode the stored credentials
  are read by \<open>_find_any_credentials\<close>, which builds the object without the stored
  expiry. So for stored credentials whose expiry, 100, is before the current time, 1000,
  and which have no refresh token, \<open>get_credentials\<close> returns the credentials, with
  their token and without an expiry, instead of \<open>None\<close>.
\<close>

theorem single_user_returns_expired_credentials:
  "(let stored = demo_credentials None (Some (Naive 100))
    in listdir single_user_env ''dir''
         = Some [(''a@example.com.json'',
                  FileText (json_dumps (CredsDict (creds_dict stored))))]
       \<and> expiry stored = Some (Naive 100) \<and> 100 < utcnow single_user_env
       \<and> refresh_token stored = None
       \<and> fst (get_credentials single_user_env None [''read''] (Some ''client_secret.json'')
                ''dir'' None None (fresh_world True))
           = Inr (Some (stored\<lparr>expiry := None\<rparr>)))"
  by (simp add: get_credentials_def locate_credentials_def find_any_credentials_def
        check_credentials_def has_required_scopes_def valid_def expired_def endswith_def
        single_user_env_def demo_credentials_def creds_dict_def build_credentials_def
        json_dumps_def truthy_def Let_def)

text \<open>
  C4 (scope sufficiency: a required scope that is not granted gives \<open>None\<close>),
  evaluated where the code departs from it. The session entry in Redis holds credentials
  with a token, no expiry and no scope list (\<open>scopes\<close> is \<open>null\<close>). The required
  scope \<open>read\<close> is not granted, and \<open>get_credentials\<close> does not return \<open>None\<close>: the
  test \<open>scope in credentials.scopes\<close> raises TypeError.
\<close>

theorem scope_check_raises_without_scope_list:
  "(let c = (demo_credentials None None)\<lparr>scopes := None\<rparr>;
        w = save_credentials_to_session ''s1'' c (fresh_world True)
    in redis_get (server w) (session_creds_key ''s1'')
         = Some (Json (CredsDict (creds_dict c)))
       \<and> fst (locate_credentials (demo_env RefreshError) None ''dir'' (Some ''s1'') None w)
           = Inr (Some (c, None, None))
       \<and> valid (demo_env RefreshError) c = Inr True
       \<and> fst (get_credentials (demo_env RefreshError) None [''read''] None ''dir''
                (Some ''s1'') None w) = Inl TypeError)"
  by (simp add: get_credentials_def locate_credentials_def load_credentials_from_session_eq
        load_session_from_redis_eq save_credentials_to_session_eq redis_get_setex
        parse_creds_dict check_credentials_def has_required_scopes_def valid_def expired_def
        eval_defs split_beta)

text \<open>
  C5, as stated, fails: for expired credentials with a refresh token, a refresh that
  fails with an exception other than RefreshError and a refresh that fails with
  RefreshError both make \<open>get_credentials\<close> return \<open>None\<close>; the caller cannot tell
  them apart.
\<close>

theorem refresh_failure_not_distinct_counterexample:
  "fst (get_credentials (demo_env OtherException) (Some ''a@example.com'') [''read'']
          (Some ''client_secret.json'') ''dir'' (Some ''s1'') (Some ''t1'')
          (cached_world False (demo_credentials (Some ''refresh'') (Some (Naive 100)))))
     = Inr None
   \<and> fst (get_credentials (demo_env RefreshError) (Some ''a@example.com'') [''read'']
          (Some ''client_secret.json'') ''dir'' (Some ''s1'') (Some ''t1'')
          (cached_world False (demo_credentials (Some ''refresh'') (Some (Naive 100)))))
     = Inr None"
  by (simp add: get_credentials_def locate_credentials_def load_credentials_from_session_eq
        load_session_from_redis_eq check_credentials_def has_required_scopes_def valid_def
        expired_def eval_defs)

text \<open>
  C5, amended. For expired credentials with a refresh token (and a scope list) that
  \<open>get_credentials\<close> has found, when the refresh fails with an exception other than
  RefreshError, \<open>get_credentials\<close> returns \<open>None\<close> and leaves the world as the lookup
  left it; that is also the result and the world when the same refresh fails with
  RefreshError instead.
\<close>

theorem refresh_failures_both_none:
  assumes "locate_credentials env email base sid tenant w
             = (Inr (Some (c, email', cache_key)), w1)"
    and "scopes c = Some granted"
    and "expired env c = Inr True" and "truthy (refresh_token c)"
    and "refresh env c = OtherException"
  shows "get_credentials env email required secrets base sid tenant w = (Inr None, w1)
       \<and> get_credentials (env\<lparr>refresh := (refresh env)(c := RefreshError)\<rparr>)
            email required secrets base sid tenant w = (Inr None, w1)"
  using assms
  by (simp add: get_credentials_def check_credentials_def has_required_scopes_granted valid_def)

theorem refresh_failures_both_none_witness:
  "(let c = demo_credentials (Some ''refresh'') (Some (Naive 100));
        w = cached_world False c;
        env = demo_env OtherException;
        w1 = snd (locate_credentials env (Some ''a@example.com'') ''dir'' (Some ''s1'')
                    (Some ''t1'') w)
    in locate_credentials env (Some ''a@example.com'') ''dir'' (Some ''s1'') (Some ''t1'') w
         = (Inr (Some (c, Some ''a@example.com'', Some ''s1'')), w1)
       \<and> scopes c = Some [''read'']
       \<and> expired env c = Inr True \<and> truthy (refresh_token c)
       \<and> refresh env c = OtherException
       \<and> get_credentials env (Some ''a@example.com'') [''read''] (Some ''client_secret.json'')
            ''dir'' (Some ''s1'') (Some ''t1'') w = (Inr None, w1)
       \<and> get_credentials (env\<lparr>refresh := (refresh env)(c := RefreshError)\<rparr>)
            (Some ''a@example.com'') [''read''] (Some ''client_secret.json'')
            ''dir'' (Some ''s1'') (Some ''t1'') w = (Inr None, w1))"
proof -
  define c where "c = demo_credentials (Some ''refresh'') (Some (Naive 100))"
  define w where "w = cached_world False c"
  define env where "env = demo_env OtherException"
  define w1 where "w1 = snd (locate_credentials env (Some ''a@example.com'') ''dir''
                    (Some ''s1'') (Some ''t1'') w)"
  have loc: "locate_credentials env (Some ''a@example.com'') ''dir'' (Some ''s1'') (Some ''t1'') w
         = (Inr (Some (c, Some ''a@example.com'', Some ''s1'')), w1)"
    unfolding w1_def
    by (simp add: locate_credentials_def load_credentials_from_session_eq
          load_session_from_redis_eq eval_defs c_def w_def env_def)
  have sc: "scopes c = Some [''read'']"
    by (simp add: c_def demo_credentials_def)
  have ex: "expired env c = Inr True"
    by (simp add: expired_def c_def env_def demo_credentials_def demo_env_def)
  have rt: "truthy (refresh_token c)"
    by (simp add: c_def demo_credentials_def truthy_def)
  have out: "refresh env c = OtherException"
    by (simp add: env_def demo_env_def)
  show ?thesis
    using loc sc ex rt out
      refresh_failures_both_none [OF loc sc ex rt out, of "[''read'']"
        "Some ''client_secret.json''"]
    by (simp add: c_def [symmetric] w_def [symmetric] env_def [symmetric] w1_def [symmetric]
          Let_def)
qed

text \<open>
  C6, as stated, fails: the identity-scoped load of an entry that is not JSON returns
  \<open>None\<close>, and the entry is still in the store afterwards.
\<close>

theorem malformed_entry_kept_counterexample:
  "fst (load_credentials_from_file ''a@example.com'' (Some ''t1'') corrupt_world) = Inr None
   \<and> redis_get (server (snd (load_credentials_from_file ''a@example.com'' (Some ''t1'')
                              corrupt_world)))
        (user_creds_key ''t1'' ''a@example.com'') = Some (NotJson ''{token:'')"
proof -
  have "redis_get (server corrupt_world) (user_creds_key ''t1'' ''a@example.com'')
          = Some (NotJson ''{token:'')"
    by (simp add: corrupt_world_def fresh_world_def redis_get_def)
  then show ?thesis
    by (simp add: load_credentials_from_file_eq durable_available_def redis_get_expire
          parse_not_json)
qed

text \<open>
  C6, amended. For every identity-scoped entry whose text is not valid JSON, the load
  returns \<open>None\<close> and the entry is not deleted: it stays in the store with the same
  text; when the read reaches the store and the text is not empty its time to live is
  reset to seven days from the time of the read, and otherwise the entry is left as it
  is. A second load of the same key returns \<open>None\<close> again.
\<close>

theorem malformed_entry_none_and_kept:
  assumes "redis_get (server w) (user_creds_key tenant user) = Some (NotJson s)"
  shows "fst (load_credentials_from_file user (Some tenant) w) = Inr None
       \<and> redis_get (server (snd (load_credentials_from_file user (Some tenant) w)))
            (user_creds_key tenant user) = Some (NotJson s)
       \<and> db (server (snd (load_credentials_from_file user (Some tenant) w)))
            (user_creds_key tenant user)
           = (if tenant \<noteq> [] \<and> durable_available w \<and> s \<noteq> []
              then Some (NotJson s, clock (server w) + user_ttl)
              else db (server w) (user_creds_key tenant user))
       \<and> fst (load_credentials_from_file user (Some tenant)
                 (snd (load_credentials_from_file user (Some tenant) w))) = Inr None"
proof -
  have kept: "fst (load_credentials_from_file user (Some tenant) w) = Inr None
       \<and> redis_get (server (snd (load_credentials_from_file user (Some tenant) w)))
            (user_creds_key tenant user) = Some (NotJson s)
       \<and> fst (load_credentials_from_file user (Some tenant)
                 (snd (load_credentials_from_file user (Some tenant) w))) = Inr None"
    using assms
    by (simp add: load_credentials_from_file_eq durable_available_def redis_get_expire
          parse_not_json)
  have ttl: "db (server (snd (load_credentials_from_file user (Some tenant) w)))
            (user_creds_key tenant user)
           = (if tenant \<noteq> [] \<and> durable_available w \<and> s \<noteq> []
              then Some (NotJson s, clock (server w) + user_ttl)
              else db (server w) (user_creds_key tenant user))"
    by (simp add: load_credentials_from_file_eq truthy_def redis_expire_def assms)
  from kept ttl show ?thesis by simp
qed

theorem malformed_entry_none_and_kept_witness:
  "redis_get (server corrupt_world) (user_creds_key ''t1'' ''a@example.com'')
     = Some (NotJson ''{token:'')
   \<and> fst (load_credentials_from_file ''a@example.com'' (Some ''t1'') corrupt_world) = Inr None
   \<and> redis_get (server (snd (load_credentials_from_file ''a@example.com'' (Some ''t1'')
                               corrupt_world)))
        (user_creds_key ''t1'' ''a@example.com'') = Some (NotJson ''{token:'')
   \<and> db (server corrupt_world) (user_creds_key ''t1'' ''a@example.com'')
       = Some (NotJson ''{token:'', 50)
   \<and> db (server (snd (load_credentials_from_file ''a@example.com'' (Some ''t1'')
                        corrupt_world)))
        (user_creds_key ''t1'' ''a@example.com'')
       = Some (NotJson ''{token:'', 604800)
   \<and> fst (load_credentials_from_file ''a@example.com'' (Some ''t1'')
            (snd (load_credentials_from_file ''a@example.com'' (Some ''t1'') corrupt_world)))
       = Inr None"
proof -
  have there: "redis_get (server corrupt_world) (user_creds_key ''t1'' ''a@example.com'')
     = Some (NotJson ''{token:'')"
    by (simp add: corrupt_world_def fresh_world_def redis_get_def)
  have raw: "db (server corrupt_world) (user_creds_key ''t1'' ''a@example.com'')
       = Some (NotJson ''{token:'', 50)"
    by (simp add: corrupt_world_def fresh_world_def)
  have up: "durable_available corrupt_world" "clock (server corrupt_world) = 0"
    by (simp_all add: corrupt_world_def fresh_world_def durable_available_def cmd_ok_def
          store_of_def init_store_def)
  show ?thesis
    using there raw up malformed_entry_none_and_kept [OF there]
    by (simp add: user_ttl_def)
qed

text \<open>
  C7 (round trip). For credentials with a client identifier, with the durable store
  available: saving them identity-scoped and loading them with the same user and the
  same tenant client identifier, at any time before the seven days of the entry have
  passed, returns credentials equal to the saved ones in all seven attributes (token,
  refresh token, token URI, client id, client secret, scopes, expiry).
\<close>

theorem save_load_roundtrip:
  assumes "truthy (client_id c)" and "durable_available w"
    and "clock (server w) \<le> t" and "t < clock (server w) + user_ttl"
  shows "fst (load_credentials_from_file user (client_id c)
                (at_time t (save_credentials_to_file user c w))) = Inr (Some c)"
  using assms
  by (simp add: load_credentials_from_file_eq save_credentials_to_file_eq at_time_def
        durable_available_def redis_get_setex_later parse_creds_dict)

theorem save_load_roundtrip_witness:
  "truthy (client_id (demo_credentials (Some ''refresh'') (Some (Naive 5000))))
   \<and> durable_available (fresh_world True)
   \<and> clock (server (fresh_world True)) \<le> 604799
   \<and> 604799 < clock (server (fresh_world True)) + user_ttl
   \<and> fst (load_credentials_from_file ''a@example.com''
            (client_id (demo_credentials (Some ''refresh'') (Some (Naive 5000))))
            (at_time 604799
               (save_credentials_to_file ''a@example.com''
                  (demo_credentials (Some ''refresh'') (Some (Naive 5000))) (fresh_world True))))
       = Inr (Some (demo_credentials (Some ''refresh'') (Some (Naive 5000))))"
proof -
  have a: "truthy (client_id (demo_credentials (Some ''refresh'') (Some (Naive 5000))))"
    by (simp add: demo_credentials_def truthy_def)
  have b: "durable_available (fresh_world True)"
    by (simp add: eval_defs)
  have c: "clock (server (fresh_world True)) \<le> 604799"
    by (simp add: fresh_world_def)
  have d: "604799 < clock (server (fresh_world True)) + user_ttl"
    by (simp add: fresh_world_def user_ttl_def)
  show ?thesis
    using a b c d save_load_roundtrip [OF a b c d, of "''a@example.com''"] by simp
qed

text \<open>
  C8 (asymmetric fallback). When the durable store is unavailable, a session-scoped
  save followed by a session-scoped load of the same session id returns the saved
  credentials, which are in the in-memory cache; an identity-scoped load returns
  \<open>None\<close> whatever the server holds, before and after that save.
\<close>

theorem fallback_asymmetry:
  assumes "\<not> durable_available w"
  shows "fst (load_credentials_from_session sid (save_credentials_to_session sid c w))
           = Inr (Some c)
       \<and> SESSION_CREDENTIALS_CACHE (save_credentials_to_session sid c w) sid = Some c
       \<and> fst (load_credentials_from_file user tenant w) = Inr None
       \<and> fst (load_credentials_from_file user tenant (save_credentials_to_session sid c w))
           = Inr None"
  using assms
  by (simp add: load_credentials_from_session_eq load_session_from_redis_eq
        save_credentials_to_session_eq load_credentials_from_file_eq durable_available_def)

theorem fallback_asymmetry_witness:
  "(let c = demo_credentials None None;
        written = save_credentials_to_file ''a@example.com'' c (fresh_world True);
        w = written\<lparr>server := (server written)\<lparr>reachable := False\<rparr>\<rparr>
    in \<not> durable_available w
       \<and> user_view w ''t1'' ''a@example.com'' = Some (Json (CredsDict (creds_dict c)))
       \<and> fst (load_credentials_from_session ''s1'' (save_credentials_to_session ''s1'' c w))
           = Inr (Some c)
       \<and> SESSION_CREDENTIALS_CACHE (save_credentials_to_session ''s1'' c w) ''s1'' = Some c
       \<and> fst (load_credentials_from_file ''a@example.com'' (Some ''t1'') w) = Inr None
       \<and> fst (load_credentials_from_file ''a@example.com'' (Some ''t1'')
                (save_credentials_to_session ''s1'' c w)) = Inr None)"
proof -
  define c where "c = demo_credentials None None"
  define written where "written = save_credentials_to_file ''a@example.com'' c (fresh_world True)"
  define w where "w = written\<lparr>server := (server written)\<lparr>reachable := False\<rparr>\<rparr>"
  have down: "\<not> durable_available w"
    by (rule unreachable_not_available) (simp add: w_def)
  have there: "user_view w ''t1'' ''a@example.com'' = Some (Json (CredsDict (creds_dict c)))"
    by (simp add: user_view_def w_def written_def save_credentials_to_file_eq eval_defs c_def
          redis_get_def redis_setex_def user_ttl_def)
  show ?thesis
    using down there
      fallback_asymmetry [OF down, of "''s1''" c "''a@example.com''" "Some ''t1''"]
    by (simp add: c_def [symmetric] written_def [symmetric] w_def [symmetric] Let_def)
qed

text \<open>
  C9 (the durable tier stays disabled after a failed connection), evaluated where the
  code departs from it. The first use of a new instance finds the server not answering:
  the call fails and \<open>enabled\<close> becomes false. The client object was assigned before
  the failed \<open>ping()\<close>, so the property hands it out from then on: once the server
  answers, the next \<open>store_oauth_state\<close> of the instance returns \<open>True\<close> and the entry
  is in Redis, with \<open>enabled\<close> still false.
\<close>

theorem durable_tier_used_after_failed_connect:
  "(let w1 = store_oauth_state ''tok'' None None None (fresh_world False);
        rs = the (redis_store w1);
        srv = (server w1)\<lparr>reachable := True\<rparr>;
        (ok, rs2, srv2) = rs_store_oauth_state rs srv ''tok2'' None None None
    in \<not> enabled rs \<and> ok \<and> \<not> enabled rs2
       \<and> redis_get srv2 (oauth_state_key ''tok2'')
           = Some (Json (StateDict \<lparr>d_session_id = None, d_client_id = None,
                                   d_client_secret = None\<rparr>)))"
  by (simp add: store_oauth_state_def fresh_world_def store_defs redis_defs truthy_def Let_def)

text \<open>
  C10. For credentials without a client identifier, \<open>save_credentials_to_file\<close> returns
  with the world unchanged. So when \<open>get_credentials\<close> refreshes the credentials it
  found and the refreshed credentials have no client identifier, the identity-scoped
  namespace reads after the call as it read before, also when the user's email is
  known.
\<close>

theorem save_without_client_id_writes_nothing:
  "(\<not> truthy (client_id c) \<longrightarrow> save_credentials_to_file user c w = w)
   \<and> (locate_credentials env email base sid tenant w
          = (Inr (Some (c0, email', cache_key)), w1)
        \<and> refresh env c0 = Refreshed c \<and> \<not> truthy (client_id c)
      \<longrightarrow> user_view (snd (get_credentials env email required secrets base sid tenant w))
            = user_view w)"
proof (intro conjI impI)
  assume "\<not> truthy (client_id c)"
  then show "save_credentials_to_file user c w = w"
    by (simp add: save_credentials_to_file_def)
next
  assume a: "locate_credentials env email base sid tenant w
          = (Inr (Some (c0, email', cache_key)), w1)
        \<and> refresh env c0 = Refreshed c \<and> \<not> truthy (client_id c)"
  then have w1: "user_view w1 = user_view w"
    using user_view_locate [of env email base sid tenant w] by simp
  have "user_view (snd (check_credentials env c0 cache_key email' required secrets sid w1))
          = user_view w1"
    using a
    by (simp add: check_credentials_def save_credentials_to_file_def Let_def
          split: sum.splits option.splits)
  then show "user_view (snd (get_credentials env email required secrets base sid tenant w))
            = user_view w"
    using a w1 by (simp add: get_credentials_def)
qed

theorem save_without_client_id_writes_nothing_witness:
  "(let c0 = (demo_credentials (Some ''refresh'') (Some (Naive 100)))\<lparr>client_id := Some []\<rparr>;
        c = c0\<lparr>token := Some ''access2'', expiry := Some (Naive 5000)\<rparr>;
        w = cached_world True c0;
        env = demo_env (Refreshed c);
        run = get_credentials env (Some ''a@example.com'') [''read'']
                (Some ''client_secret.json'') ''dir'' (Some ''s1'') (Some ''t1'') w
    in \<not> truthy (client_id c)
       \<and> save_credentials_to_file ''a@example.com'' c w = w
       \<and> locate_credentials env (Some ''a@example.com'') ''dir'' (Some ''s1'') (Some ''t1'') w
           = (Inr (Some (c0, Some ''a@example.com'', Some ''s1'')),
              snd (locate_credentials env (Some ''a@example.com'') ''dir'' (Some ''s1'')
                     (Some ''t1'') w))
       \<and> refresh env c0 = Refreshed c
       \<and> fst run = Inr (Some c)
       \<and> user_view (snd run) = user_view w
       \<and> user_view w ''t1'' ''a@example.com'' = None)"
proof -
  define c0 where
    "c0 = (demo_credentials (Some ''refresh'') (Some (Naive 100)))\<lparr>client_id := Some []\<rparr>"
  define c where "c = c0\<lparr>token := Some ''access2'', expiry := Some (Naive 5000)\<rparr>"
  define w where "w = cached_world True c0"
  define env where "env = demo_env (Refreshed c)"
  have nc: "\<not> truthy (client_id c)"
    by (simp add: c_def c0_def demo_credentials_def truthy_def)
  have nc0: "\<not> truthy (client_id c0)"
    by (simp add: c0_def demo_credentials_def truthy_def)
  have loc: "locate_credentials env (Some ''a@example.com'') ''dir'' (Some ''s1'') (Some ''t1'') w
           = (Inr (Some (c0, Some ''a@example.com'', Some ''s1'')),
              snd (locate_credentials env (Some ''a@example.com'') ''dir'' (Some ''s1'')
                     (Some ''t1'') w))"
    by (simp add: locate_credentials_def load_credentials_from_session_eq
          load_session_from_redis_eq eval_defs w_def env_def redis_get_def parse_stored_def)
  have out: "refresh env c0 = Refreshed c"
    by (simp add: env_def demo_env_def)
  have res: "fst (get_credentials env (Some ''a@example.com'') [''read'']
                (Some ''client_secret.json'') ''dir'' (Some ''s1'') (Some ''t1'') w)
               = Inr (Some c)"
    unfolding get_credentials_located [OF loc]
    by (simp add: check_credentials_def has_required_scopes_def valid_def expired_def
          c0_def demo_credentials_def env_def demo_env_def truthy_def Let_def)
  have empty: "user_view w ''t1'' ''a@example.com'' = None"
    by (simp add: user_view_def w_def cached_world_def fresh_world_def redis_get_def)
  show ?thesis
    using nc nc0 loc out res empty
      save_without_client_id_writes_nothing [of c "''a@example.com''" w env
        "Some ''a@example.com''" "''dir''" "Some ''s1''" "Some ''t1''" c0
        "Some ''a@example.com''" "Some ''s1''"
        "snd (locate_credentials env (Some ''a@example.com'') ''dir'' (Some ''s1'')
                     (Some ''t1'') w)"
        "[''read'']" "Some ''client_secret.json''"]
    by (simp add: c0_def [symmetric] c_def [symmetric] w_def [symmetric] env_def [symmetric]
          Let_def)
qed

end
